theory Spec2Isabelle
  imports Complex_Main "HOL-Library.Char_ord" "HOL-Library.List_Lexorder"
begin

section \<open>Type markers, values and expressions\<close>

text \<open>
  Modelled from the spec: the type markers of \<^verbatim>\<open>stimpl/types.py\<close>, which is not among the
  sources. The spec gives a closed set of five markers, equal exactly when they denote the
  same case; \<^verbatim>\<open>runtime.py\<close> builds them as \<^verbatim>\<open>Unit()\<close>, \<^verbatim>\<open>Integer()\<close>, \<^verbatim>\<open>FloatingPoint()\<close>,
  \<^verbatim>\<open>String()\<close> and \<^verbatim>\<open>Boolean()\<close>, compares them with \<^verbatim>\<open>!=\<close> and dispatches on them with
  \<^verbatim>\<open>match\<close>.
\<close>

datatype Type = Unit | Integer | FloatingPoint | String | Boolean

text \<open>
  A Python \<^verbatim>\<open>float\<close> is an IEEE 754 double: a finite number (\<open>Finite r\<close>, with \<open>Finite 0\<close>
  for \<^verbatim>\<open>0.0\<close>), the negative zero \<^verbatim>\<open>-0.0\<close>, an infinity or a NaN. The finite doubles are
  the reals \<open>m * 2 ^ e\<close> with \<open>\<bar>m\<bar> < 2 ^ 53\<close> and \<open>- 1074 \<le> e \<le> 971\<close>; the operations
  below round every result to one of them, or to an infinity.
\<close>

datatype pyfloat = Finite real | NegZero | PosInf | NegInf | NaN

text \<open>
  The payload of a value is a Python object: \<^verbatim>\<open>None\<close>, an \<^verbatim>\<open>int\<close> (unbounded), a \<^verbatim>\<open>float\<close>,
  a \<^verbatim>\<open>str\<close> or a \<^verbatim>\<open>bool\<close>.
\<close>

datatype pyval = PNone | PInt int | PFloat pyfloat | PStr string | PBool bool

text \<open>
  Modelled from the spec: the expression nodes of \<^verbatim>\<open>stimpl/expression.py\<close>, which is not
  among the sources. The constructors and their fields are those that the \<^verbatim>\<open>match\<close> of
  \<^verbatim>\<open>evaluate\<close> takes apart. \<^verbatim>\<open>Assign\<close> holds a \<^verbatim>\<open>Variable\<close> node of which only the name is
  read, so the name stands for it. \<open>IfExpr\<close> and \<open>NotExpr\<close> are the nodes \<^verbatim>\<open>If\<close> and
  \<^verbatim>\<open>Not\<close>. \<open>OtherExpr\<close> stands for an expression object of none of the listed kinds, which
  reaches the final \<^verbatim>\<open>case _\<close>.
\<close>

datatype expr =
    Ren
  | IntLiteral int
  | FloatingPointLiteral pyfloat
  | StringLiteral string
  | BooleanLiteral bool
  | Print expr
  | Sequence "expr list"
  | Program "expr list"
  | Variable string
  | Assign string expr
  | Add expr expr
  | Subtract expr expr
  | Multiply expr expr
  | Divide expr expr
  | And expr expr
  | Or expr expr
  | NotExpr expr
  | IfExpr expr expr expr
  | Lt expr expr
  | Lte expr expr
  | Gt expr expr
  | Gte expr expr
  | Eq expr expr
  | Ne expr expr
  | While expr expr
  | OtherExpr

text \<open>
  The three error kinds of \<^verbatim>\<open>stimpl/errors.py\<close> that \<^verbatim>\<open>evaluate\<close> raises, and the
  exceptions that Python itself raises when an operator meets a payload it is not defined
  on (\<^verbatim>\<open>None + None\<close>, an \<^verbatim>\<open>int\<close> too large to convert to \<^verbatim>\<open>float\<close>): these can arise only
  from a state whose bindings pair a payload with a marker of another type.
\<close>

datatype error =
    InterpSyntaxError
  | InterpTypeError
  | InterpMathError
  | PyTypeError
  | PyZeroDivisionError
  | PyOverflowError

section \<open>Interpreter state\<close>

text \<open>
  \<^verbatim>\<open>class State\<close> holds a name, the pair of a value and its type, and the next state;
  \<^verbatim>\<open>class EmptyState\<close> holds nothing.
\<close>

datatype state = EmptyState | State string pyval Type state

fun copy :: "state \<Rightarrow> state" where
  "copy EmptyState = EmptyState"
| "copy (State name v t next_state) = State name v t next_state"

fun set_value :: "state \<Rightarrow> string \<Rightarrow> pyval \<Rightarrow> Type \<Rightarrow> state" where
  "set_value s variable_name variable_value variable_type =
     State variable_name variable_value variable_type s"

fun get_value :: "state \<Rightarrow> string \<Rightarrow> (pyval \<times> Type) option" where
  "get_value EmptyState variable_name = None"
| "get_value (State name v t next_state) variable_name =
     (if name = variable_name then Some (v, t) else get_value next_state variable_name)"

section \<open>Floating-point arithmetic\<close>

text \<open>
  The sign bit, the value of a finite double, and the zero and the infinity of a sign.
\<close>

fun is_negative :: "pyfloat \<Rightarrow> bool" where
  "is_negative (Finite r) = (r < 0)"
| "is_negative NegZero = True"
| "is_negative PosInf = False"
| "is_negative NegInf = True"
| "is_negative NaN = False"

fun fval :: "pyfloat \<Rightarrow> real" where
  "fval (Finite r) = r"
| "fval NegZero = 0"
| "fval PosInf = 0"
| "fval NegInf = 0"
| "fval NaN = 0"

fun is_inf :: "pyfloat \<Rightarrow> bool" where
  "is_inf PosInf = True"
| "is_inf NegInf = True"
| "is_inf (Finite r) = False"
| "is_inf NegZero = False"
| "is_inf NaN = False"

fun is_zero :: "pyfloat \<Rightarrow> bool" where
  "is_zero (Finite r) = (r = 0)"
| "is_zero NegZero = True"
| "is_zero PosInf = False"
| "is_zero NegInf = False"
| "is_zero NaN = False"

fun signed_zero :: "bool \<Rightarrow> pyfloat" where
  "signed_zero neg = (if neg then NegZero else Finite 0)"

fun signed_inf :: "bool \<Rightarrow> pyfloat" where
  "signed_inf neg = (if neg then NegInf else PosInf)"

text \<open>
  Rounding to the nearest double, ties to the even significand. \<open>bit_length n\<close> is the
  number of binary digits of \<open>n\<close>, and \<open>ilog2 x\<close> is the \<open>k\<close> with
  \<open>2 ^ k \<le> x < 2 ^ (k + 1)\<close>, for \<open>0 < x\<close>. A magnitude is scaled so that its
  significand has 53 bits (fewer below \<open>2 ^ - 1022\<close>, where the exponent stays at
  \<open>- 1074\<close>), the significand is rounded to an integer, and a result of \<open>2 ^ 1024\<close> or
  more is an infinity.
\<close>

function bit_length :: "int \<Rightarrow> int" where
  "bit_length n = (if n \<le> 0 then 0 else 1 + bit_length (n div 2))"
  by pat_completeness auto
termination
  by (relation "measure nat") auto

declare bit_length.simps [simp del]

definition ilog2 :: "real \<Rightarrow> int" where
  "ilog2 x =
     (if 1 \<le> x then bit_length \<lfloor>x\<rfloor> - 1 else - bit_length (\<lceil>1 / x\<rceil> - 1))"

definition pow2 :: "int \<Rightarrow> real" where
  "pow2 t = (if 0 \<le> t then 2 ^ nat t else 1 / 2 ^ nat (- t))"

definition round_half_even :: "real \<Rightarrow> int" where
  "round_half_even q =
     (let f = \<lfloor>q\<rfloor>; d = q - of_int f
      in if d < 1 / 2 then f else if 1 / 2 < d then f + 1 else if even f then f else f + 1)"

definition round_double :: "bool \<Rightarrow> real \<Rightarrow> pyfloat" where
  "round_double neg mag =
     (if mag \<le> 0 then signed_zero neg
      else let t = max (ilog2 mag - 52) (- 1074);
               m = round_half_even (mag / pow2 t);
               r = of_int m * pow2 t
           in if m = 0 then signed_zero neg
              else if 2 ^ 1024 \<le> r then signed_inf neg
              else Finite (if neg then - r else r))"

definition round_real :: "real \<Rightarrow> pyfloat" where
  "round_real r = round_double (r < 0) \<bar>r\<bar>"

text \<open>
  Comparison: a NaN is neither equal to nor less than anything, the two zeros are equal.
\<close>

definition float_eq :: "pyfloat \<Rightarrow> pyfloat \<Rightarrow> bool" where
  "float_eq x y =
     (if x = NaN \<or> y = NaN then False
      else if is_inf x \<or> is_inf y then x = y
      else fval x = fval y)"

definition float_lt :: "pyfloat \<Rightarrow> pyfloat \<Rightarrow> bool" where
  "float_lt x y =
     (if x = NaN \<or> y = NaN then False
      else if x = PosInf \<or> y = NegInf then False
      else if x = NegInf \<or> y = PosInf then True
      else fval x < fval y)"

definition float_le :: "pyfloat \<Rightarrow> pyfloat \<Rightarrow> bool" where
  "float_le x y \<longleftrightarrow> float_lt x y \<or> float_eq x y"

text \<open>
  The arithmetic of IEEE 754: the exact result, rounded; an exact zero sum is \<^verbatim>\<open>-0.0\<close>
  only when both terms are; the sign of a product or quotient is the exclusive or of the
  operands' signs.
\<close>

fun float_neg :: "pyfloat \<Rightarrow> pyfloat" where
  "float_neg (Finite r) = (if r = 0 then NegZero else Finite (- r))"
| "float_neg NegZero = Finite 0"
| "float_neg PosInf = NegInf"
| "float_neg NegInf = PosInf"
| "float_neg NaN = NaN"

definition float_add :: "pyfloat \<Rightarrow> pyfloat \<Rightarrow> pyfloat" where
  "float_add x y =
     (if x = NaN \<or> y = NaN then NaN
      else if is_inf x then (if is_inf y \<and> x \<noteq> y then NaN else x)
      else if is_inf y then y
      else let r = fval x + fval y
           in if r = 0 then (if x = NegZero \<and> y = NegZero then NegZero else Finite 0)
              else round_real r)"

definition float_sub :: "pyfloat \<Rightarrow> pyfloat \<Rightarrow> pyfloat" where
  "float_sub x y = float_add x (float_neg y)"

definition float_mul :: "pyfloat \<Rightarrow> pyfloat \<Rightarrow> pyfloat" where
  "float_mul x y =
     (if x = NaN \<or> y = NaN then NaN
      else if is_inf x \<or> is_inf y then
        (if is_zero x \<or> is_zero y then NaN
         else signed_inf (is_negative x \<noteq> is_negative y))
      else round_double (is_negative x \<noteq> is_negative y) (\<bar>fval x\<bar> * \<bar>fval y\<bar>))"

definition float_div :: "pyfloat \<Rightarrow> pyfloat \<Rightarrow> pyfloat" where
  "float_div x y =
     (if x = NaN \<or> y = NaN then NaN
      else if is_inf x then
        (if is_inf y then NaN else signed_inf (is_negative x \<noteq> is_negative y))
      else if is_inf y then signed_zero (is_negative x \<noteq> is_negative y)
      else if is_zero y then
        (if is_zero x then NaN else signed_inf (is_negative x \<noteq> is_negative y))
      else round_double (is_negative x \<noteq> is_negative y) (\<bar>fval x\<bar> / \<bar>fval y\<bar>))"

text \<open>
  C's \<^verbatim>\<open>fmod\<close> and \<^verbatim>\<open>floor\<close>, and CPython's float floor division built from them
  (\<^verbatim>\<open>_float_div_mod\<close>): the quotient of \<^verbatim>\<open>vx - mod\<close> by \<^verbatim>\<open>wx\<close>, corrected by one when the
  remainder and the divisor differ in sign, then snapped to the nearest integer.
\<close>

definition float_fmod :: "pyfloat \<Rightarrow> pyfloat \<Rightarrow> pyfloat" where
  "float_fmod x y =
     (if x = NaN \<or> y = NaN \<or> is_inf x \<or> is_zero y then NaN
      else if is_inf y then x
      else let q = fval x / fval y;
               n = (if 0 \<le> q then \<lfloor>q\<rfloor> else \<lceil>q\<rceil>);
               r = fval x - of_int n * fval y
           in if r = 0 then signed_zero (is_negative x) else Finite r)"

fun float_floor :: "pyfloat \<Rightarrow> pyfloat" where
  "float_floor (Finite r) = Finite (of_int \<lfloor>r\<rfloor>)"
| "float_floor NegZero = NegZero"
| "float_floor PosInf = PosInf"
| "float_floor NegInf = NegInf"
| "float_floor NaN = NaN"

definition float_floordiv :: "pyfloat \<Rightarrow> pyfloat \<Rightarrow> pyfloat" where
  "float_floordiv vx wx =
     (let md = float_fmod vx wx;
          dv = float_div (float_sub vx md) wx;
          dv = (if \<not> float_eq md (Finite 0)
                     \<and> float_lt wx (Finite 0) \<noteq> float_lt md (Finite 0)
                then float_sub dv (Finite 1) else dv)
      in if \<not> float_eq dv (Finite 0)
         then (let floordiv = float_floor dv
               in if float_lt (Finite (1 / 2)) (float_sub dv floordiv)
                  then float_add floordiv (Finite 1) else floordiv)
         else signed_zero (is_negative (float_div vx wx)))"

section \<open>Python operators on payloads\<close>

text \<open>
  \<^verbatim>\<open>bool\<close> is a subclass of \<^verbatim>\<open>int\<close>, and \<^verbatim>\<open>int\<close> and \<^verbatim>\<open>float\<close> mix in arithmetic and
  comparison: the numeric view of a payload. Comparison of an \<^verbatim>\<open>int\<close> with a \<^verbatim>\<open>float\<close>
  is exact (\<open>exact\<close>); arithmetic converts the \<^verbatim>\<open>int\<close> to the nearest \<^verbatim>\<open>float\<close> first and
  raises \<^verbatim>\<open>OverflowError\<close> when there is none (\<open>to_float\<close>).
\<close>

datatype pynum = NInt int | NFloat pyfloat

fun num_of :: "pyval \<Rightarrow> pynum option" where
  "num_of (PInt i) = Some (NInt i)"
| "num_of (PBool b) = Some (NInt (if b then 1 else 0))"
| "num_of (PFloat x) = Some (NFloat x)"
| "num_of PNone = None"
| "num_of (PStr a) = None"

fun exact :: "pynum \<Rightarrow> pyfloat" where
  "exact (NInt i) = Finite (of_int i)"
| "exact (NFloat x) = x"

fun to_float :: "pynum \<Rightarrow> error + pyfloat" where
  "to_float (NInt i) =
     (let x = round_real (of_int i) in if is_inf x then Inl PyOverflowError else Inr x)"
| "to_float (NFloat x) = Inr x"

fun float_arith :: "(pyfloat \<Rightarrow> pyfloat \<Rightarrow> error + pyfloat) \<Rightarrow> pynum \<Rightarrow> pynum \<Rightarrow> error + pyval" where
  "float_arith f x y =
     (case to_float x of
        Inl e \<Rightarrow> Inl e
      | Inr a \<Rightarrow>
          (case to_float y of
             Inl e \<Rightarrow> Inl e
           | Inr b \<Rightarrow> (case f a b of Inl e \<Rightarrow> Inl e | Inr c \<Rightarrow> Inr (PFloat c))))"

text \<open>\<^verbatim>\<open>bool(v)\<close>, as \<^verbatim>\<open>while v:\<close>, \<^verbatim>\<open>and\<close>, \<^verbatim>\<open>or\<close> and \<^verbatim>\<open>not\<close> take it.\<close>

fun truthy :: "pyval \<Rightarrow> bool" where
  "truthy PNone = False"
| "truthy (PInt i) = (i \<noteq> 0)"
| "truthy (PFloat x) = (\<not> float_eq x (Finite 0))"
| "truthy (PStr a) = (a \<noteq> [])"
| "truthy (PBool b) = b"

text \<open>\<^verbatim>\<open>a == b\<close>: numbers by value across \<^verbatim>\<open>int\<close>, \<^verbatim>\<open>bool\<close> and \<^verbatim>\<open>float\<close>; never an error.\<close>

fun py_eq :: "pyval \<Rightarrow> pyval \<Rightarrow> bool" where
  "py_eq a b =
     (case (num_of a, num_of b) of
        (Some x, Some y) \<Rightarrow> float_eq (exact x) (exact y)
      | (None, None) \<Rightarrow> a = b
      | _ \<Rightarrow> False)"

text \<open>\<^verbatim>\<open>a < b\<close> and \<^verbatim>\<open>a <= b\<close>: numbers by value, strings lexicographically.\<close>

fun py_lt :: "pyval \<Rightarrow> pyval \<Rightarrow> error + bool" where
  "py_lt (PStr a) (PStr b) = Inr (a < b)"
| "py_lt a b =
     (case (num_of a, num_of b) of
        (Some x, Some y) \<Rightarrow> Inr (float_lt (exact x) (exact y))
      | _ \<Rightarrow> Inl PyTypeError)"

fun py_le :: "pyval \<Rightarrow> pyval \<Rightarrow> error + bool" where
  "py_le (PStr a) (PStr b) = Inr (a \<le> b)"
| "py_le a b =
     (case (num_of a, num_of b) of
        (Some x, Some y) \<Rightarrow> Inr (float_le (exact x) (exact y))
      | _ \<Rightarrow> Inl PyTypeError)"

text \<open>
  \<^verbatim>\<open>a + b\<close>, \<^verbatim>\<open>a - b\<close>, \<^verbatim>\<open>a * b\<close>, \<^verbatim>\<open>a / b\<close> and \<^verbatim>\<open>a // b\<close>. Two \<^verbatim>\<open>int\<close>s are added,
  subtracted, multiplied and floor-divided exactly; \<^verbatim>\<open>/\<close> of two \<^verbatim>\<open>int\<close>s is the exact
  quotient rounded to a \<^verbatim>\<open>float\<close>. Any other pair of numbers is computed in \<^verbatim>\<open>float\<close>.
  Both divisions raise \<^verbatim>\<open>ZeroDivisionError\<close> on a zero divisor.
\<close>

fun py_add :: "pyval \<Rightarrow> pyval \<Rightarrow> error + pyval" where
  "py_add (PStr a) (PStr b) = Inr (PStr (a @ b))"
| "py_add a b =
     (case (num_of a, num_of b) of
        (Some (NInt i), Some (NInt j)) \<Rightarrow> Inr (PInt (i + j))
      | (Some x, Some y) \<Rightarrow> float_arith (\<lambda>u v. Inr (float_add u v)) x y
      | _ \<Rightarrow> Inl PyTypeError)"

fun py_sub :: "pyval \<Rightarrow> pyval \<Rightarrow> error + pyval" where
  "py_sub a b =
     (case (num_of a, num_of b) of
        (Some (NInt i), Some (NInt j)) \<Rightarrow> Inr (PInt (i - j))
      | (Some x, Some y) \<Rightarrow> float_arith (\<lambda>u v. Inr (float_sub u v)) x y
      | _ \<Rightarrow> Inl PyTypeError)"

fun str_repeat :: "string \<Rightarrow> pyval \<Rightarrow> error + pyval" where
  "str_repeat a b =
     (case num_of b of
        Some (NInt n) \<Rightarrow> Inr (PStr (concat (replicate (nat n) a)))
      | _ \<Rightarrow> Inl PyTypeError)"

fun py_mul :: "pyval \<Rightarrow> pyval \<Rightarrow> error + pyval" where
  "py_mul (PStr a) b = str_repeat a b"
| "py_mul a (PStr b) = str_repeat b a"
| "py_mul a b =
     (case (num_of a, num_of b) of
        (Some (NInt i), Some (NInt j)) \<Rightarrow> Inr (PInt (i * j))
      | (Some x, Some y) \<Rightarrow> float_arith (\<lambda>u v. Inr (float_mul u v)) x y
      | _ \<Rightarrow> Inl PyTypeError)"

fun py_truediv :: "pyval \<Rightarrow> pyval \<Rightarrow> error + pyval" where
  "py_truediv a b =
     (case (num_of a, num_of b) of
        (Some (NInt i), Some (NInt j)) \<Rightarrow>
          if j = 0 then Inl PyZeroDivisionError
          else (let x = round_double ((i < 0) \<noteq> (j < 0)) (\<bar>of_int i\<bar> / \<bar>of_int j\<bar>)
                in if is_inf x then Inl PyOverflowError else Inr (PFloat x))
      | (Some x, Some y) \<Rightarrow>
          float_arith
            (\<lambda>u v. if is_zero v then Inl PyZeroDivisionError else Inr (float_div u v)) x y
      | _ \<Rightarrow> Inl PyTypeError)"

fun py_floordiv :: "pyval \<Rightarrow> pyval \<Rightarrow> error + pyval" where
  "py_floordiv a b =
     (case (num_of a, num_of b) of
        (Some (NInt i), Some (NInt j)) \<Rightarrow>
          if j = 0 then Inl PyZeroDivisionError else Inr (PInt (i div j))
      | (Some x, Some y) \<Rightarrow>
          float_arith
            (\<lambda>u v. if is_zero v then Inl PyZeroDivisionError else Inr (float_floordiv u v)) x y
      | _ \<Rightarrow> Inl PyTypeError)"

text \<open>\<^verbatim>\<open>a and b\<close> and \<^verbatim>\<open>a or b\<close> return one of their operands.\<close>

fun py_and :: "pyval \<Rightarrow> pyval \<Rightarrow> pyval" where
  "py_and a b = (if truthy a then b else a)"

fun py_or :: "pyval \<Rightarrow> pyval \<Rightarrow> pyval" where
  "py_or a b = (if truthy a then a else b)"

text \<open>\<^verbatim>\<open>a > b\<close> and \<^verbatim>\<open>a >= b\<close> on these payloads are \<^verbatim>\<open>b < a\<close> and \<^verbatim>\<open>b <= a\<close>.\<close>

fun py_gt :: "pyval \<Rightarrow> pyval \<Rightarrow> error + bool" where
  "py_gt a b = py_lt b a"

fun py_ge :: "pyval \<Rightarrow> pyval \<Rightarrow> error + bool" where
  "py_ge a b = py_le b a"

section \<open>The cases of evaluate, after the operands are evaluated\<close>

text \<open>
  Each function below is the part of one \<^verbatim>\<open>case\<close> of \<^verbatim>\<open>evaluate\<close> that follows the two
  recursive calls: it takes the operands' values and types and gives the error raised, or
  the value and type returned. The checks are in the order of the source.
\<close>

fun typed :: "Type \<Rightarrow> error + pyval \<Rightarrow> error + (pyval \<times> Type)" where
  "typed t (Inl e) = Inl e"
| "typed t (Inr v) = Inr (v, t)"

fun as_boolean :: "error + bool \<Rightarrow> error + (pyval \<times> Type)" where
  "as_boolean (Inl e) = Inl e"
| "as_boolean (Inr b) = Inr (PBool b, Boolean)"

definition add_case :: "pyval \<Rightarrow> Type \<Rightarrow> pyval \<Rightarrow> Type \<Rightarrow> error + (pyval \<times> Type)" where
  "add_case left_result left_type right_result right_type =
     (if left_type \<noteq> right_type then Inl InterpTypeError
      else case left_type of
          Integer \<Rightarrow> typed left_type (py_add left_result right_result)
        | String \<Rightarrow> typed left_type (py_add left_result right_result)
        | FloatingPoint \<Rightarrow> typed left_type (py_add left_result right_result)
        | _ \<Rightarrow> Inl InterpTypeError)"

definition subtract_case :: "pyval \<Rightarrow> Type \<Rightarrow> pyval \<Rightarrow> Type \<Rightarrow> error + (pyval \<times> Type)" where
  "subtract_case left_result left_type right_result right_type =
     (if left_type \<noteq> right_type then Inl InterpTypeError
      else case left_type of
          Integer \<Rightarrow> typed left_type (py_sub left_result right_result)
        | FloatingPoint \<Rightarrow> typed left_type (py_sub left_result right_result)
        | _ \<Rightarrow> Inl InterpTypeError)"

definition multiply_case :: "pyval \<Rightarrow> Type \<Rightarrow> pyval \<Rightarrow> Type \<Rightarrow> error + (pyval \<times> Type)" where
  "multiply_case left_result left_type right_result right_type =
     (if left_type \<noteq> right_type then Inl InterpTypeError
      else case left_type of
          Integer \<Rightarrow> typed left_type (py_mul left_result right_result)
        | FloatingPoint \<Rightarrow> typed left_type (py_mul left_result right_result)
        | _ \<Rightarrow> Inl InterpTypeError)"

text \<open>
  \<^verbatim>\<open>Divide\<close> first tests \<^verbatim>\<open>right_result == 0\<close>, on the payload alone, then compares the
  types, then dispatches: \<^verbatim>\<open>/\<close> for \<^verbatim>\<open>FloatingPoint\<close>, \<^verbatim>\<open>//\<close> for \<^verbatim>\<open>Integer\<close>.
\<close>

definition divide_case :: "pyval \<Rightarrow> Type \<Rightarrow> pyval \<Rightarrow> Type \<Rightarrow> error + (pyval \<times> Type)" where
  "divide_case left_result left_type right_result right_type =
     (if py_eq right_result (PInt 0) then Inl InterpMathError
      else if left_type \<noteq> right_type then Inl InterpTypeError
      else case left_type of
          FloatingPoint \<Rightarrow> typed left_type (py_truediv left_result right_result)
        | Integer \<Rightarrow> typed left_type (py_floordiv left_result right_result)
        | _ \<Rightarrow> Inl InterpTypeError)"

definition and_case :: "pyval \<Rightarrow> Type \<Rightarrow> pyval \<Rightarrow> Type \<Rightarrow> error + (pyval \<times> Type)" where
  "and_case left_value left_type right_value right_type =
     (if left_type \<noteq> right_type then Inl InterpTypeError
      else case left_type of
          Boolean \<Rightarrow> Inr (py_and left_value right_value, left_type)
        | _ \<Rightarrow> Inl InterpTypeError)"

definition or_case :: "pyval \<Rightarrow> Type \<Rightarrow> pyval \<Rightarrow> Type \<Rightarrow> error + (pyval \<times> Type)" where
  "or_case left_value left_type right_value right_type =
     (if left_type \<noteq> right_type then Inl InterpTypeError
      else case left_type of
          Boolean \<Rightarrow> Inr (py_or left_value right_value, left_type)
        | _ \<Rightarrow> Inl InterpTypeError)"

definition not_case :: "pyval \<Rightarrow> Type \<Rightarrow> error + (pyval \<times> Type)" where
  "not_case new_value new_type =
     (case new_type of
          Boolean \<Rightarrow> Inr (PBool (\<not> truthy new_value), new_type)
        | _ \<Rightarrow> Inl InterpTypeError)"

text \<open>
  The six relational cases name all five markers (the four comparable ones, then
  \<^verbatim>\<open>Unit\<close>), so their final \<^verbatim>\<open>case _\<close> is never reached and has no branch here.
\<close>

definition lt_case :: "pyval \<Rightarrow> Type \<Rightarrow> pyval \<Rightarrow> Type \<Rightarrow> error + (pyval \<times> Type)" where
  "lt_case left_value left_type right_value right_type =
     (if left_type \<noteq> right_type then Inl InterpTypeError
      else case left_type of
          Integer \<Rightarrow> as_boolean (py_lt left_value right_value)
        | Boolean \<Rightarrow> as_boolean (py_lt left_value right_value)
        | String \<Rightarrow> as_boolean (py_lt left_value right_value)
        | FloatingPoint \<Rightarrow> as_boolean (py_lt left_value right_value)
        | Unit \<Rightarrow> Inr (PBool False, Boolean))"

definition lte_case :: "pyval \<Rightarrow> Type \<Rightarrow> pyval \<Rightarrow> Type \<Rightarrow> error + (pyval \<times> Type)" where
  "lte_case left_value left_type right_value right_type =
     (if left_type \<noteq> right_type then Inl InterpTypeError
      else case left_type of
          Integer \<Rightarrow> as_boolean (py_le left_value right_value)
        | Boolean \<Rightarrow> as_boolean (py_le left_value right_value)
        | String \<Rightarrow> as_boolean (py_le left_value right_value)
        | FloatingPoint \<Rightarrow> as_boolean (py_le left_value right_value)
        | Unit \<Rightarrow> Inr (PBool True, Boolean))"

definition gt_case :: "pyval \<Rightarrow> Type \<Rightarrow> pyval \<Rightarrow> Type \<Rightarrow> error + (pyval \<times> Type)" where
  "gt_case left_value left_type right_value right_type =
     (if left_type \<noteq> right_type then Inl InterpTypeError
      else case left_type of
          Integer \<Rightarrow> as_boolean (py_gt left_value right_value)
        | Boolean \<Rightarrow> as_boolean (py_gt left_value right_value)
        | String \<Rightarrow> as_boolean (py_gt left_value right_value)
        | FloatingPoint \<Rightarrow> as_boolean (py_gt left_value right_value)
        | Unit \<Rightarrow> Inr (PBool False, Boolean))"

definition gte_case :: "pyval \<Rightarrow> Type \<Rightarrow> pyval \<Rightarrow> Type \<Rightarrow> error + (pyval \<times> Type)" where
  "gte_case left_value left_type right_value right_type =
     (if left_type \<noteq> right_type then Inl InterpTypeError
      else case left_type of
          Integer \<Rightarrow> as_boolean (py_ge left_value right_value)
        | Boolean \<Rightarrow> as_boolean (py_ge left_value right_value)
        | String \<Rightarrow> as_boolean (py_ge left_value right_value)
        | FloatingPoint \<Rightarrow> as_boolean (py_ge left_value right_value)
        | Unit \<Rightarrow> Inr (PBool True, Boolean))"

definition eq_case :: "pyval \<Rightarrow> Type \<Rightarrow> pyval \<Rightarrow> Type \<Rightarrow> error + (pyval \<times> Type)" where
  "eq_case left_value left_type right_value right_type =
     (if left_type \<noteq> right_type then Inl InterpTypeError
      else case left_type of
          Integer \<Rightarrow> Inr (PBool (py_eq left_value right_value), Boolean)
        | Boolean \<Rightarrow> Inr (PBool (py_eq left_value right_value), Boolean)
        | String \<Rightarrow> Inr (PBool (py_eq left_value right_value), Boolean)
        | FloatingPoint \<Rightarrow> Inr (PBool (py_eq left_value right_value), Boolean)
        | Unit \<Rightarrow> Inr (PBool True, Boolean))"

definition ne_case :: "pyval \<Rightarrow> Type \<Rightarrow> pyval \<Rightarrow> Type \<Rightarrow> error + (pyval \<times> Type)" where
  "ne_case left_value left_type right_value right_type =
     (if left_type \<noteq> right_type then Inl InterpTypeError
      else case left_type of
          Integer \<Rightarrow> Inr (PBool (\<not> py_eq left_value right_value), Boolean)
        | Boolean \<Rightarrow> Inr (PBool (\<not> py_eq left_value right_value), Boolean)
        | String \<Rightarrow> Inr (PBool (\<not> py_eq left_value right_value), Boolean)
        | FloatingPoint \<Rightarrow> Inr (PBool (\<not> py_eq left_value right_value), Boolean)
        | Unit \<Rightarrow> Inr (PBool False, Boolean))"

text \<open>
  \<^verbatim>\<open>Assign\<close>, after the value is evaluated: the earlier binding is looked up in the state
  that the evaluation returned; \<^verbatim>\<open>variable_type\<close> is \<^verbatim>\<open>None\<close> when there is none.
\<close>

definition assign_case :: "string \<Rightarrow> pyval \<Rightarrow> Type \<Rightarrow> state \<Rightarrow> error + (pyval \<times> Type \<times> state)" where
  "assign_case variable_name value_result value_type new_state =
     (let variable_type = map_option snd (get_value new_state variable_name)
      in if Some value_type \<noteq> variable_type \<and> variable_type \<noteq> None
         then Inl InterpTypeError
         else Inr (value_result, value_type,
                   set_value new_state variable_name value_result value_type))"

section \<open>Evaluation\<close>

text \<open>
  \<^verbatim>\<open>evaluate\<close> need not return (a \<^verbatim>\<open>While\<close> may run forever), so the model takes fuel:
  every call of \<^verbatim>\<open>evaluate\<close> and every turn of the \<^verbatim>\<open>while\<close> loop spends one unit, and
  \<open>None\<close> is "out of fuel". \<open>Some (Inl e)\<close> is the exception \<open>e\<close>, \<open>Some (Inr r)\<close> the
  returned triple. What \<^verbatim>\<open>Print\<close> writes to standard output is not part of the triple
  and is not modelled.
\<close>

type_synonym 'a outcome = "(error + 'a) option"

fun and_then :: "'a outcome \<Rightarrow> ('a \<Rightarrow> 'b outcome) \<Rightarrow> 'b outcome" where
  "and_then None f = None"
| "and_then (Some (Inl e)) f = Some (Inl e)"
| "and_then (Some (Inr x)) f = f x"

fun finish :: "error + (pyval \<times> Type) \<Rightarrow> state \<Rightarrow> (pyval \<times> Type \<times> state) outcome" where
  "finish (Inl e) s = Some (Inl e)"
| "finish (Inr (v, t)) s = Some (Inr (v, t, s))"

fun evaluate :: "nat \<Rightarrow> expr \<Rightarrow> state \<Rightarrow> (pyval \<times> Type \<times> state) outcome"
  and evaluate_exprs :: "nat \<Rightarrow> expr list \<Rightarrow> pyval \<times> Type \<times> state \<Rightarrow> (pyval \<times> Type \<times> state) outcome"
  and while_loop :: "nat \<Rightarrow> expr \<Rightarrow> expr \<Rightarrow> pyval \<Rightarrow> state \<Rightarrow> state outcome"
where
  "evaluate 0 expression state = None"
| "evaluate (Suc n) Ren state = Some (Inr (PNone, Unit, state))"
| "evaluate (Suc n) (IntLiteral l) state = Some (Inr (PInt l, Integer, state))"
| "evaluate (Suc n) (FloatingPointLiteral l) state = Some (Inr (PFloat l, FloatingPoint, state))"
| "evaluate (Suc n) (StringLiteral l) state = Some (Inr (PStr l, String, state))"
| "evaluate (Suc n) (BooleanLiteral l) state = Some (Inr (PBool l, Boolean, state))"
| "evaluate (Suc n) (Print to_print) state = evaluate n to_print state"
| "evaluate (Suc n) (Sequence exprs) state = evaluate_exprs n exprs (PNone, Unit, state)"
| "evaluate (Suc n) (Program exprs) state = evaluate_exprs n exprs (PNone, Unit, state)"
| "evaluate (Suc n) (Variable variable_name) state =
     (case get_value state variable_name of
        None \<Rightarrow> Some (Inl InterpSyntaxError)
      | Some (variable_value, variable_type) \<Rightarrow>
          Some (Inr (variable_value, variable_type, state)))"
| "evaluate (Suc n) (Assign variable_name val) state =
     and_then (evaluate n val state) (\<lambda>(value_result, value_type, new_state).
       Some (assign_case variable_name value_result value_type new_state))"
| "evaluate (Suc n) (Add left right) state =
     and_then (evaluate n left state) (\<lambda>(left_result, left_type, new_state).
     and_then (evaluate n right new_state) (\<lambda>(right_result, right_type, new_state).
       finish (add_case left_result left_type right_result right_type) new_state))"
| "evaluate (Suc n) (Subtract left right) state =
     and_then (evaluate n left state) (\<lambda>(left_result, left_type, new_state).
     and_then (evaluate n right new_state) (\<lambda>(right_result, right_type, new_state).
       finish (subtract_case left_result left_type right_result right_type) new_state))"
| "evaluate (Suc n) (Multiply left right) state =
     and_then (evaluate n left state) (\<lambda>(left_result, left_type, new_state).
     and_then (evaluate n right new_state) (\<lambda>(right_result, right_type, new_state).
       finish (multiply_case left_result left_type right_result right_type) new_state))"
| "evaluate (Suc n) (Divide left right) state =
     and_then (evaluate n left state) (\<lambda>(left_result, left_type, new_state).
     and_then (evaluate n right new_state) (\<lambda>(right_result, right_type, new_state).
       finish (divide_case left_result left_type right_result right_type) new_state))"
| "evaluate (Suc n) (And left right) state =
     and_then (evaluate n left state) (\<lambda>(left_value, left_type, new_state).
     and_then (evaluate n right new_state) (\<lambda>(right_value, right_type, new_state).
       finish (and_case left_value left_type right_value right_type) new_state))"
| "evaluate (Suc n) (Or left right) state =
     and_then (evaluate n left state) (\<lambda>(left_value, left_type, new_state).
     and_then (evaluate n right new_state) (\<lambda>(right_value, right_type, new_state).
       finish (or_case left_value left_type right_value right_type) new_state))"
| "evaluate (Suc n) (NotExpr e) state =
     and_then (evaluate n e state) (\<lambda>(new_value, new_type, new_state).
       finish (not_case new_value new_type) new_state)"
| "evaluate (Suc n) (IfExpr condition true false) state =
     and_then (evaluate n condition state) (\<lambda>(condition_value, condition_type, new_state).
       case condition_type of
         Boolean \<Rightarrow>
           and_then (evaluate n true new_state) (\<lambda>(true_value, true_type, new_state).
           and_then (evaluate n false new_state) (\<lambda>(false_value, false_type, new_state).
             if py_eq condition_value (PBool True)
             then Some (Inr (true_value, true_type, new_state))
             else Some (Inr (false_value, false_type, new_state))))
       | _ \<Rightarrow> Some (Inl InterpTypeError))"
| "evaluate (Suc n) (Lt left right) state =
     and_then (evaluate n left state) (\<lambda>(left_value, left_type, new_state).
     and_then (evaluate n right new_state) (\<lambda>(right_value, right_type, new_state).
       finish (lt_case left_value left_type right_value right_type) new_state))"
| "evaluate (Suc n) (Lte left right) state =
     and_then (evaluate n left state) (\<lambda>(left_value, left_type, new_state).
     and_then (evaluate n right new_state) (\<lambda>(right_value, right_type, new_state).
       finish (lte_case left_value left_type right_value right_type) new_state))"
| "evaluate (Suc n) (Gt left right) state =
     and_then (evaluate n left state) (\<lambda>(left_value, left_type, new_state).
     and_then (evaluate n right new_state) (\<lambda>(right_value, right_type, new_state).
       finish (gt_case left_value left_type right_value right_type) new_state))"
| "evaluate (Suc n) (Gte left right) state =
     and_then (evaluate n left state) (\<lambda>(left_value, left_type, new_state).
     and_then (evaluate n right new_state) (\<lambda>(right_value, right_type, new_state).
       finish (gte_case left_value left_type right_value right_type) new_state))"
| "evaluate (Suc n) (Eq left right) state =
     and_then (evaluate n left state) (\<lambda>(left_value, left_type, new_state).
     and_then (evaluate n right new_state) (\<lambda>(right_value, right_type, new_state).
       finish (eq_case left_value left_type right_value right_type) new_state))"
| "evaluate (Suc n) (Ne left right) state =
     and_then (evaluate n left state) (\<lambda>(left_value, left_type, new_state).
     and_then (evaluate n right new_state) (\<lambda>(right_value, right_type, new_state).
       finish (ne_case left_value left_type right_value right_type) new_state))"
| "evaluate (Suc n) (While condition body) state =
     and_then (evaluate n condition state) (\<lambda>(condition_value, condition_type, new_state).
       case condition_type of
         Boolean \<Rightarrow>
           and_then (while_loop n condition body condition_value new_state) (\<lambda>new_state.
             Some (Inr (PBool False, Boolean, new_state)))
       | _ \<Rightarrow> Some (Inl InterpTypeError))"
| "evaluate (Suc n) OtherExpr state = Some (Inl InterpSyntaxError)"
| "evaluate_exprs n [] (new_value, new_type, new_state) =
     Some (Inr (new_value, new_type, new_state))"
| "evaluate_exprs n (e # exprs) (new_value, new_type, new_state) =
     and_then (evaluate n e new_state) (evaluate_exprs n exprs)"
| "while_loop 0 condition body condition_value new_state = None"
| "while_loop (Suc n) condition body condition_value new_state =
     (if truthy condition_value
      then and_then (evaluate n body new_state) (\<lambda>(new_value, new_type, new_state).
           and_then (evaluate n condition new_state) (\<lambda>(condition_value, condition_type, new_state).
             while_loop n condition body condition_value new_state))
      else Some (Inr new_state))"

section \<open>Auxiliary definitions for the properties\<close>

text \<open>
  \<open>out_le m m'\<close>: the outcome \<open>m'\<close> agrees with \<open>m\<close> unless \<open>m\<close> ran out of fuel.
\<close>

definition out_le :: "'a outcome \<Rightarrow> 'a outcome \<Rightarrow> bool" where
  "out_le m m' \<longleftrightarrow> (m = None \<or> m = m')"

text \<open>The chain of a state as a list of bindings, the most recent first.\<close>

fun bindings :: "state \<Rightarrow> (string \<times> pyval \<times> Type) list" where
  "bindings EmptyState = []"
| "bindings (State name v t next_state) = (name, v, t) # bindings next_state"

text \<open>
  The twelve binary nodes over two operands, and for each the function above that its
  \<^verbatim>\<open>case\<close> applies to the operands' values and types.
\<close>

definition binary_nodes :: "expr \<Rightarrow> expr \<Rightarrow> expr list" where
  "binary_nodes left right =
     [Add left right, Subtract left right, Multiply left right, Divide left right,
      And left right, Or left right,
      Lt left right, Lte left right, Gt left right, Gte left right,
      Eq left right, Ne left right]"

fun binary_case :: "expr \<Rightarrow> pyval \<Rightarrow> Type \<Rightarrow> pyval \<Rightarrow> Type \<Rightarrow> error + (pyval \<times> Type)" where
  "binary_case (Add l r) = add_case"
| "binary_case (Subtract l r) = subtract_case"
| "binary_case (Multiply l r) = multiply_case"
| "binary_case (Divide l r) = divide_case"
| "binary_case (And l r) = and_case"
| "binary_case (Or l r) = or_case"
| "binary_case (Lt l r) = lt_case"
| "binary_case (Lte l r) = lte_case"
| "binary_case (Gt l r) = gt_case"
| "binary_case (Gte l r) = gte_case"
| "binary_case (Eq l r) = eq_case"
| "binary_case (Ne l r) = ne_case"
| "binary_case e = (\<lambda>lv lt rv rt. Inl InterpSyntaxError)"

text \<open>
  A program whose loop condition is of type \<^verbatim>\<open>Boolean\<close> when the loop is entered and of
  type \<^verbatim>\<open>Integer\<close> after the first turn: the condition is an \<^verbatim>\<open>If\<close> on \<^verbatim>\<open>c\<close> with a
  \<^verbatim>\<open>Boolean\<close> and an \<^verbatim>\<open>Integer\<close> branch, and the body sets \<^verbatim>\<open>c\<close> to false.
\<close>

definition while_condition :: expr where
  "while_condition = IfExpr (Variable ''c'') (BooleanLiteral True) (IntLiteral 0)"

definition while_retype :: expr where
  "while_retype =
     Program
       [Assign ''c'' (BooleanLiteral True),
        While while_condition (Assign ''c'' (BooleanLiteral False))]"

section \<open>Comparison of finite floats\<close>

lemma float_eq_Finite [simp]: "float_eq (Finite a) (Finite b) \<longleftrightarrow> a = b"
  by (simp add: float_eq_def)

lemma float_lt_Finite [simp]: "float_lt (Finite a) (Finite b) \<longleftrightarrow> a < b"
  by (simp add: float_lt_def)

lemma float_eq_zero_iff: "float_eq y (Finite 0) \<longleftrightarrow> is_zero y"
  by (cases y) (simp_all add: float_eq_def)

section \<open>Rounding\<close>

text \<open>
  \<open>ilog2\<close> never overshoots, so a magnitude that is a double already, \<open>m * 2 ^ e\<close> with a
  significand below \<open>2 ^ 53\<close> and an exponent in range, is scaled to an integer and
  rounding returns it unchanged. A quotient that is a double is therefore returned
  exactly.
\<close>

lemmas round_double_eval =
  round_double_def ilog2_def bit_length.simps pow2_def round_half_even_def Let_def

lemma pow2_powi: "pow2 t = 2 powi t"
  by (simp add: pow2_def power_int_def inverse_eq_divide power_one_over)

lemma pow2_pos: "0 < pow2 t"
  by (simp add: pow2_powi)

lemma pow2_add: "pow2 (a + b) = pow2 a * pow2 b"
  by (simp add: pow2_powi power_int_add)

lemma pow2_numeral: "pow2 (numeral k) = 2 ^ numeral k"
  by (simp add: pow2_def)

lemma pow2_less_imp_less: "pow2 a < pow2 b \<Longrightarrow> a < b"
proof (rule ccontr)
  assume lt: "pow2 a < pow2 b" and "\<not> a < b"
  then have "b \<le> a" by simp
  then have "(2::real) powi b \<le> 2 powi a"
    by (rule power_int_increasing) simp
  with lt show False by (simp add: pow2_powi)
qed

lemma pow2_mono: "a \<le> b \<Longrightarrow> pow2 a \<le> pow2 b"
  unfolding pow2_powi by (rule power_int_increasing) simp_all

lemma bit_length_bounds:
  "0 < n \<Longrightarrow> 0 < bit_length n \<and> 2 ^ nat (bit_length n - 1) \<le> n \<and> n < 2 ^ nat (bit_length n)"
proof (induction n rule: bit_length.induct)
  case (1 n)
  show ?case
  proof (cases "n div 2 \<le> 0")
    case True
    with "1.prems" have "n = 1" by arith
    then show ?thesis by (simp add: bit_length.simps [of 1] bit_length.simps [of 0])
  next
    case False
    then have pos: "0 < n div 2" by simp
    from "1.prems" have "\<not> n \<le> 0" by simp
    from "1.IH" [OF this pos]
    have L: "0 < bit_length (n div 2)"
      and lo: "2 ^ nat (bit_length (n div 2) - 1) \<le> n div 2"
      and hi: "n div 2 < 2 ^ nat (bit_length (n div 2))" by simp_all
    have bl: "bit_length n = 1 + bit_length (n div 2)"
      using "1.prems" by (simp add: bit_length.simps [of n])
    from L have nat1: "nat (bit_length (n div 2)) = Suc (nat (bit_length (n div 2) - 1))"
      by simp
    have "2 ^ nat (bit_length n - 1) = (2::int) ^ nat (bit_length (n div 2))"
      by (simp add: bl)
    also have "\<dots> = 2 * 2 ^ nat (bit_length (n div 2) - 1)"
      by (subst nat1) simp
    also have "\<dots> \<le> 2 * (n div 2)" using lo by simp
    also have "\<dots> \<le> n" by simp
    finally have lo': "2 ^ nat (bit_length n - 1) \<le> n" .
    from L have nat2: "nat (bit_length n) = Suc (nat (bit_length (n div 2)))"
      by (simp add: bl)
    have "n < 2 * (n div 2) + 2" by simp
    also have "\<dots> \<le> 2 * 2 ^ nat (bit_length (n div 2))" using hi by simp
    also have "\<dots> = 2 ^ nat (bit_length n)" by (subst nat2) simp
    finally have hi': "n < 2 ^ nat (bit_length n)" .
    from L bl lo' hi' show ?thesis by simp
  qed
qed

lemma ilog2_lower:
  assumes "0 < x"
  shows "pow2 (ilog2 x) \<le> x"
proof (cases "1 \<le> x")
  case True
  then have n: "0 < \<lfloor>x\<rfloor>" by simp
  from bit_length_bounds [OF n]
  have L: "0 < bit_length \<lfloor>x\<rfloor>" and lo: "2 ^ nat (bit_length \<lfloor>x\<rfloor> - 1) \<le> \<lfloor>x\<rfloor>" by simp_all
  from lo have "(2::real) ^ nat (bit_length \<lfloor>x\<rfloor> - 1) \<le> of_int \<lfloor>x\<rfloor>"
    by (metis of_int_le_iff of_int_numeral of_int_power)
  also have "\<dots> \<le> x" by simp
  finally show ?thesis using True L by (simp add: ilog2_def pow2_def)
next
  case False
  with assms have y: "1 < 1 / x" by simp
  then have c: "2 \<le> \<lceil>1 / x\<rceil>" by (simp add: le_ceiling_iff)
  then have n: "0 < \<lceil>1 / x\<rceil> - 1" by simp
  define L where "L = bit_length (\<lceil>1 / x\<rceil> - 1)"
  from bit_length_bounds [OF n]
  have Lpos: "0 < L" and hi: "\<lceil>1 / x\<rceil> - 1 < 2 ^ nat L" by (simp_all add: L_def)
  from hi have "\<lceil>1 / x\<rceil> \<le> 2 ^ nat L" by simp
  then have "of_int \<lceil>1 / x\<rceil> \<le> (2::real) ^ nat L"
    by (metis of_int_le_iff of_int_numeral of_int_power)
  then have "1 / x \<le> 2 ^ nat L"
    using le_of_int_ceiling [of "1 / x"] by linarith
  with assms have "1 / 2 ^ nat L \<le> x"
    by (simp add: field_simps)
  then show ?thesis using False Lpos by (simp add: ilog2_def pow2_def L_def)
qed

lemma round_half_even_of_int: "round_half_even (of_int n) = n"
  by (simp add: round_half_even_def)

lemma round_double_exact:
  fixes m e :: int
  assumes m: "0 < m" "m < 2 ^ 53" and e: "- 1074 \<le> e" "e \<le> 971"
  shows "round_double neg (of_int m * pow2 e)
    = Finite (if neg then - (of_int m * pow2 e) else of_int m * pow2 e)"
proof -
  define x where "x = of_int m * pow2 e"
  define t where "t = max (ilog2 x - 52) (- 1074)"
  from m have xpos: "0 < x" by (simp add: x_def pow2_pos)
  have "of_int m < (2::real) ^ 53" using m(2)
    by (metis of_int_less_iff of_int_numeral of_int_power)
  then have "x < 2 ^ 53 * pow2 e"
    by (simp add: x_def pow2_pos)
  also have "\<dots> = pow2 (e + 53)"
    by (simp add: pow2_add pow2_numeral)
  finally have xlt: "x < pow2 (e + 53)" .
  from ilog2_lower [OF xpos] xlt have "pow2 (ilog2 x) < pow2 (e + 53)" by simp
  then have "ilog2 x < e + 53" by (rule pow2_less_imp_less)
  with e have te: "t \<le> e" by (simp add: t_def)
  define d where "d = nat (e - t)"
  from te have ed: "e = t + int d" by (simp add: d_def)
  have pd: "pow2 (int d) = 2 ^ d" by (simp add: pow2_def)
  have q: "x / pow2 t = of_int (m * 2 ^ d)"
    using pow2_pos [of t] by (simp add: x_def ed pow2_add pd)
  have r: "of_int (m * 2 ^ d) * pow2 t = x"
    using pow2_pos [of t] by (simp add: x_def ed pow2_add pd)
  from e have "pow2 (e + 53) \<le> pow2 1024" by (intro pow2_mono) simp
  with xlt have small: "\<not> 2 ^ 1024 \<le> x" by (simp add: pow2_numeral)
  from xpos small m(1) show ?thesis
    unfolding x_def [symmetric]
    by (simp add: round_double_def Let_def t_def [symmetric] q round_half_even_of_int r
        del: of_int_mult of_int_power)
qed

lemma float_div_exact:
  fixes m e :: int
  assumes q: "\<bar>u / v\<bar> = of_int m * pow2 e"
    and m: "0 < m" "m < 2 ^ 53" and e: "- 1074 \<le> e" "e \<le> 971" and v: "v \<noteq> 0"
  shows "float_div (Finite u) (Finite v) = Finite (u / v)"
proof -
  from m have "0 < of_int m * pow2 e" by (simp add: pow2_pos)
  with q have nz: "u / v \<noteq> 0" by auto
  have "float_div (Finite u) (Finite v) = round_double ((u < 0) \<noteq> (v < 0)) \<bar>u / v\<bar>"
    using v by (simp add: float_div_def)
  also have "\<dots> = Finite (if (u < 0) \<noteq> (v < 0) then - \<bar>u / v\<bar> else \<bar>u / v\<bar>)"
    unfolding q using m e by (rule round_double_exact)
  also have "(if (u < 0) \<noteq> (v < 0) then - \<bar>u / v\<bar> else \<bar>u / v\<bar>) = u / v"
    using nz v by (auto simp add: abs_if divide_less_0_iff zero_less_divide_iff not_less)
  finally show ?thesis .
qed

section \<open>Fuel\<close>

text \<open>
  More fuel never changes an outcome, so the properties below may give each operand its
  own amount of fuel and the whole expression any larger amount.
\<close>

lemma out_le_refl: "out_le m m"
  by (simp add: out_le_def)

lemma out_le_None: "out_le None m"
  by (simp add: out_le_def)

lemma and_then_le:
  assumes "out_le m m'" and "\<And>x. out_le (f x) (f' x)"
  shows "out_le (and_then m f) (and_then m' f')"
proof (cases m)
  case None
  then show ?thesis by (simp add: out_le_def)
next
  case (Some a)
  with assms(1) have eq: "m' = Some a" by (simp add: out_le_def)
  show ?thesis
  proof (cases a)
    case (Inl e)
    with Some eq show ?thesis by (simp add: out_le_def)
  next
    case (Inr x)
    with Some eq assms(2) [of x] show ?thesis by simp
  qed
qed

lemma fuel_step:
  "out_le (evaluate n e s) (evaluate (Suc n) e s)"
  "out_le (evaluate_exprs n es acc) (evaluate_exprs (Suc n) es acc)"
  "out_le (while_loop n c b cv s0) (while_loop (Suc n) c b cv s0)"
proof (induction n e s and n es acc and n c b cv s0 rule: evaluate_evaluate_exprs_while_loop.induct)
  case (31 n condition body condition_value new_state)
  show ?case
  proof (cases "truthy condition_value")
    case True
    from 31 [OF True] show ?thesis
      unfolding while_loop.simps(2) [of "Suc n"] while_loop.simps(2) [of n condition body condition_value]
      using True by (auto intro!: and_then_le split: prod.splits)
  next
    case False
    then show ?thesis by (simp add: out_le_def)
  qed
qed (auto simp del: while_loop.simps(2) intro!: and_then_le out_le_refl out_le_None split: Type.splits prod.splits)

lemma evaluate_fuel_mono:
  assumes "evaluate n e s = Some r" and "n \<le> m"
  shows "evaluate m e s = Some r"
  using assms(2,1)
proof (induction rule: dec_induct)
  case base
  then show ?case .
next
  case (step k)
  with fuel_step(1) [of k e s] show ?case by (simp add: out_le_def)
qed

lemma operand_at_fuel:
  assumes "evaluate n e s = Some r" and "n < Suc k"
  shows "evaluate k e s = Some r"
  using assms by (auto intro: evaluate_fuel_mono)

section \<open>Binary operators\<close>

lemma evaluate_binary_ok:
  assumes l: "evaluate n1 left s = Some (Inr (lv, lt, s1))"
    and r: "evaluate n2 right s1 = Some (Inr (rv, rt, s2))"
    and n1: "n1 < m" and n2: "n2 < m"
  shows "evaluate m (Add left right) s = finish (add_case lv lt rv rt) s2"
    and "evaluate m (Subtract left right) s = finish (subtract_case lv lt rv rt) s2"
    and "evaluate m (Multiply left right) s = finish (multiply_case lv lt rv rt) s2"
    and "evaluate m (Divide left right) s = finish (divide_case lv lt rv rt) s2"
    and "evaluate m (And left right) s = finish (and_case lv lt rv rt) s2"
    and "evaluate m (Or left right) s = finish (or_case lv lt rv rt) s2"
    and "evaluate m (Lt left right) s = finish (lt_case lv lt rv rt) s2"
    and "evaluate m (Lte left right) s = finish (lte_case lv lt rv rt) s2"
    and "evaluate m (Gt left right) s = finish (gt_case lv lt rv rt) s2"
    and "evaluate m (Gte left right) s = finish (gte_case lv lt rv rt) s2"
    and "evaluate m (Eq left right) s = finish (eq_case lv lt rv rt) s2"
    and "evaluate m (Ne left right) s = finish (ne_case lv lt rv rt) s2"
proof -
  from n1 obtain k where m: "m = Suc k" by (cases m) auto
  from l n1 m have l': "evaluate k left s = Some (Inr (lv, lt, s1))"
    by (auto intro: operand_at_fuel)
  from r n2 m have r': "evaluate k right s1 = Some (Inr (rv, rt, s2))"
    by (auto intro: operand_at_fuel)
  show "evaluate m (Add left right) s = finish (add_case lv lt rv rt) s2"
    and "evaluate m (Subtract left right) s = finish (subtract_case lv lt rv rt) s2"
    and "evaluate m (Multiply left right) s = finish (multiply_case lv lt rv rt) s2"
    and "evaluate m (Divide left right) s = finish (divide_case lv lt rv rt) s2"
    and "evaluate m (And left right) s = finish (and_case lv lt rv rt) s2"
    and "evaluate m (Or left right) s = finish (or_case lv lt rv rt) s2"
    and "evaluate m (Lt left right) s = finish (lt_case lv lt rv rt) s2"
    and "evaluate m (Lte left right) s = finish (lte_case lv lt rv rt) s2"
    and "evaluate m (Gt left right) s = finish (gt_case lv lt rv rt) s2"
    and "evaluate m (Gte left right) s = finish (gte_case lv lt rv rt) s2"
    and "evaluate m (Eq left right) s = finish (eq_case lv lt rv rt) s2"
    and "evaluate m (Ne left right) s = finish (ne_case lv lt rv rt) s2"
    by (simp_all add: m l' r')
qed

lemma evaluate_binary_left_error:
  assumes l: "evaluate n1 left s = Some (Inl err)" and n1: "n1 < m"
    and e: "e \<in> set (binary_nodes left right)"
  shows "evaluate m e s = Some (Inl err)"
proof -
  from n1 obtain k where m: "m = Suc k" by (cases m) auto
  from l n1 m have l': "evaluate k left s = Some (Inl err)"
    by (auto intro: operand_at_fuel)
  from e show ?thesis
    by (auto simp add: binary_nodes_def m l')
qed

lemma evaluate_binary_right_error:
  assumes l: "evaluate n1 left s = Some (Inr (lv, lt, s1))"
    and r: "evaluate n2 right s1 = Some (Inl err)"
    and n1: "n1 < m" and n2: "n2 < m"
    and e: "e \<in> set (binary_nodes left right)"
  shows "evaluate m e s = Some (Inl err)"
proof -
  from n1 obtain k where m: "m = Suc k" by (cases m) auto
  from l n1 m have l': "evaluate k left s = Some (Inr (lv, lt, s1))"
    by (auto intro: operand_at_fuel)
  from r n2 m have r': "evaluate k right s1 = Some (Inl err)"
    by (auto intro: operand_at_fuel)
  from e show ?thesis
    by (auto simp add: binary_nodes_def m l' r')
qed

lemma evaluate_binary_case:
  assumes l: "evaluate n1 left s = Some (Inr (lv, lt, s1))"
    and r: "evaluate n2 right s1 = Some (Inr (rv, rt, s2))"
    and n1: "n1 < m" and n2: "n2 < m"
    and e: "e \<in> set (binary_nodes left right)"
  shows "evaluate m e s = finish (binary_case e lv lt rv rt) s2"
  using e evaluate_binary_ok [OF l r n1 n2]
  by (auto simp add: binary_nodes_def)

lemma finish_case:
  "finish res s = Some (case res of Inl e \<Rightarrow> Inl e | Inr (v, t) \<Rightarrow> Inr (v, t, s))"
  by (cases res) auto

text \<open>
  C4. Every binary node (\<^verbatim>\<open>Add\<close>, \<^verbatim>\<open>Subtract\<close>, \<^verbatim>\<open>Multiply\<close>, \<^verbatim>\<open>Divide\<close>, \<^verbatim>\<open>And\<close>,
  \<^verbatim>\<open>Or\<close>, \<^verbatim>\<open>Lt\<close>, \<^verbatim>\<open>Lte\<close>, \<^verbatim>\<open>Gt\<close>, \<^verbatim>\<open>Gte\<close>, \<^verbatim>\<open>Eq\<close>, \<^verbatim>\<open>Ne\<close>) evaluates its left operand
  against the incoming state and then its right operand against the state that the left
  one returned. The right operand is evaluated whatever the left value is: an error of
  the right operand is the error of the node, and when the node returns, its state is the
  one returned by the right operand, so the effects of both operands are in it. This holds
  for \<^verbatim>\<open>And\<close> and \<^verbatim>\<open>Or\<close> as for the others: there is no short circuit.
\<close>

theorem binary_left_then_right:
  assumes "e \<in> set (binary_nodes left right)" and "n1 < m" and "n2 < m"
  shows "(evaluate n1 left s = Some (Inl err) \<longrightarrow> evaluate m e s = Some (Inl err))
    \<and> (evaluate n1 left s = Some (Inr (lv, lt, s1)) \<longrightarrow>
         (evaluate n2 right s1 = Some (Inl err) \<longrightarrow> evaluate m e s = Some (Inl err))
       \<and> (evaluate n2 right s1 = Some (Inr (rv, rt, s2)) \<longrightarrow>
            evaluate m e s =
              Some (case binary_case e lv lt rv rt of
                      Inl err' \<Rightarrow> Inl err'
                    | Inr (v, t) \<Rightarrow> Inr (v, t, s2))))"
proof (intro conjI impI)
  assume "evaluate n1 left s = Some (Inl err)"
  then show "evaluate m e s = Some (Inl err)"
    using assms(2,1) by (rule evaluate_binary_left_error)
next
  assume "evaluate n1 left s = Some (Inr (lv, lt, s1))"
    and "evaluate n2 right s1 = Some (Inl err)"
  then show "evaluate m e s = Some (Inl err)"
    using assms(2,3,1) by (rule evaluate_binary_right_error)
next
  assume "evaluate n1 left s = Some (Inr (lv, lt, s1))"
    and "evaluate n2 right s1 = Some (Inr (rv, rt, s2))"
  then have "evaluate m e s = finish (binary_case e lv lt rv rt) s2"
    using assms(2,3,1) by (rule evaluate_binary_case)
  then show "evaluate m e s =
      Some (case binary_case e lv lt rv rt of
              Inl err' \<Rightarrow> Inl err'
            | Inr (v, t) \<Rightarrow> Inr (v, t, s2))"
    by (simp only: finish_case)
qed

theorem binary_left_then_right_witness:
  "Or (BooleanLiteral True) (Assign ''x'' (BooleanLiteral False))
     \<in> set (binary_nodes (BooleanLiteral True) (Assign ''x'' (BooleanLiteral False)))
   \<and> evaluate (Suc 0) (BooleanLiteral True) EmptyState
       = Some (Inr (PBool True, Boolean, EmptyState))
   \<and> evaluate (Suc (Suc 0)) (Assign ''x'' (BooleanLiteral False)) EmptyState
       = Some (Inr (PBool False, Boolean, State ''x'' (PBool False) Boolean EmptyState))
   \<and> evaluate 3 (Or (BooleanLiteral True) (Assign ''x'' (BooleanLiteral False))) EmptyState
       = Some (Inr (PBool True, Boolean, State ''x'' (PBool False) Boolean EmptyState))
   \<and> And (BooleanLiteral False) (Variable ''x'')
       \<in> set (binary_nodes (BooleanLiteral False) (Variable ''x''))
   \<and> evaluate (Suc 0) (BooleanLiteral False) EmptyState
       = Some (Inr (PBool False, Boolean, EmptyState))
   \<and> evaluate (Suc 0) (Variable ''x'') EmptyState = Some (Inl InterpSyntaxError)
   \<and> evaluate 2 (And (BooleanLiteral False) (Variable ''x'')) EmptyState
       = Some (Inl InterpSyntaxError)"
  using binary_left_then_right [of "Or (BooleanLiteral True) (Assign ''x'' (BooleanLiteral False))"
      "BooleanLiteral True" "Assign ''x'' (BooleanLiteral False)" "Suc 0" 3 "Suc (Suc 0)"
      EmptyState InterpTypeError "PBool True" Boolean EmptyState
      "PBool False" Boolean "State ''x'' (PBool False) Boolean EmptyState"]
    binary_left_then_right [of "And (BooleanLiteral False) (Variable ''x'')"
      "BooleanLiteral False" "Variable ''x''" "Suc 0" 2 "Suc 0"
      EmptyState InterpSyntaxError "PBool False" Boolean EmptyState]
  by (simp add: binary_nodes_def assign_case_def or_case_def)

section \<open>Division\<close>

text \<open>
  C1. In a \<^verbatim>\<open>Divide\<close>, once both operands are evaluated, a right value equal to zero
  (\<^verbatim>\<open>right_result == 0\<close>) makes the evaluation fail with a Math error. Nothing is asked
  of the operands' types: the test comes before the comparison of the types and before
  the dispatch, so a division by the integer or the float zero is a Math error also when
  the two types differ.
\<close>

theorem divide_zero_check_first:
  assumes "evaluate n1 left s = Some (Inr (lv, lt, s1))"
    and "evaluate n2 right s1 = Some (Inr (rv, rt, s2))"
    and "py_eq rv (PInt 0)"
    and "n1 < m" and "n2 < m"
  shows "evaluate m (Divide left right) s = Some (Inl InterpMathError)"
  using evaluate_binary_ok(4) [OF assms(1,2,4,5)] assms(3)
  by (simp add: divide_case_def)

theorem divide_zero_check_first_witness:
  "evaluate (Suc 0) (StringLiteral ''a'') EmptyState = Some (Inr (PStr ''a'', String, EmptyState))
   \<and> evaluate (Suc 0) (FloatingPointLiteral (Finite 0)) EmptyState
       = Some (Inr (PFloat (Finite 0), FloatingPoint, EmptyState))
   \<and> py_eq (PFloat (Finite 0)) (PInt 0)
   \<and> evaluate 2 (Divide (StringLiteral ''a'') (FloatingPointLiteral (Finite 0))) EmptyState
       = Some (Inl InterpMathError)
   \<and> py_eq (PFloat NegZero) (PInt 0)
   \<and> evaluate 2 (Divide (StringLiteral ''a'') (FloatingPointLiteral NegZero)) EmptyState
       = Some (Inl InterpMathError)"
  using divide_zero_check_first [of "Suc 0" "StringLiteral ''a''" EmptyState "PStr ''a''" String
      EmptyState "Suc 0" "FloatingPointLiteral (Finite 0)" "PFloat (Finite 0)" FloatingPoint
      EmptyState 2]
    divide_zero_check_first [of "Suc 0" "StringLiteral ''a''" EmptyState "PStr ''a''" String
      EmptyState "Suc 0" "FloatingPointLiteral NegZero" "PFloat NegZero" FloatingPoint
      EmptyState 2]
  by (simp add: float_eq_def)

text \<open>
  C8. A \<^verbatim>\<open>Divide\<close> of two \<^verbatim>\<open>Integer\<close> operands with a right operand other than zero
  returns the floor of the exact quotient, for negative operands too. A \<^verbatim>\<open>Divide\<close> of two
  \<^verbatim>\<open>FloatingPoint\<close> operands with a right operand other than zero returns their
  floating-point quotient (true division, not floored): for finite operands the exact
  quotient rounded to the nearest double, and the exact quotient itself whenever that is
  a double.
\<close>

theorem divide_floor_and_true:
  assumes "evaluate n1 left s = Some (Inr (lv, lt, s1))"
    and "evaluate n2 right s1 = Some (Inr (rv, rt, s2))"
    and "n1 < m" and "n2 < m"
  shows "(\<forall>a b. lv = PInt a \<and> lt = Integer \<and> rv = PInt b \<and> rt = Integer \<and> b \<noteq> 0 \<longrightarrow>
           evaluate m (Divide left right) s =
             Some (Inr (PInt \<lfloor>real_of_int a / real_of_int b\<rfloor>, Integer, s2)))
    \<and> (\<forall>x y. lv = PFloat x \<and> lt = FloatingPoint \<and> rv = PFloat y \<and> rt = FloatingPoint
               \<and> \<not> float_eq y (Finite 0) \<longrightarrow>
           evaluate m (Divide left right) s =
             Some (Inr (PFloat (float_div x y), FloatingPoint, s2)))
    \<and> (\<forall>u v. v \<noteq> 0 \<longrightarrow>
           float_div (Finite u) (Finite v) = round_double ((u < 0) \<noteq> (v < 0)) (\<bar>u\<bar> / \<bar>v\<bar>))
    \<and> (\<forall>u v k e. v \<noteq> 0 \<and> \<bar>u / v\<bar> = of_int k * pow2 e \<and> 0 < k \<and> k < 2 ^ 53
                 \<and> - 1074 \<le> e \<and> e \<le> 971 \<longrightarrow>
           float_div (Finite u) (Finite v) = Finite (u / v))"
proof (intro conjI allI impI)
  fix a b
  assume "lv = PInt a \<and> lt = Integer \<and> rv = PInt b \<and> rt = Integer \<and> b \<noteq> 0"
  with evaluate_binary_ok(4) [OF assms]
  show "evaluate m (Divide left right) s =
      Some (Inr (PInt \<lfloor>real_of_int a / real_of_int b\<rfloor>, Integer, s2))"
    by (simp add: divide_case_def floor_divide_of_int_eq)
next
  fix x y
  assume h: "lv = PFloat x \<and> lt = FloatingPoint \<and> rv = PFloat y \<and> rt = FloatingPoint
      \<and> \<not> float_eq y (Finite 0)"
  then have "\<not> is_zero y"
    by (simp add: float_eq_zero_iff)
  with h evaluate_binary_ok(4) [OF assms]
  show "evaluate m (Divide left right) s =
      Some (Inr (PFloat (float_div x y), FloatingPoint, s2))"
    by (simp add: divide_case_def)
next
  fix u v :: real
  assume "v \<noteq> 0"
  then show "float_div (Finite u) (Finite v) = round_double ((u < 0) \<noteq> (v < 0)) (\<bar>u\<bar> / \<bar>v\<bar>)"
    by (simp add: float_div_def)
next
  fix u v :: real and k e :: int
  assume "v \<noteq> 0 \<and> \<bar>u / v\<bar> = of_int k * pow2 e \<and> 0 < k \<and> k < 2 ^ 53
      \<and> - 1074 \<le> e \<and> e \<le> 971"
  then show "float_div (Finite u) (Finite v) = Finite (u / v)"
    by (intro float_div_exact [of u v k e]) simp_all
qed

theorem divide_floor_and_true_witness:
  "evaluate (Suc 0) (IntLiteral 7) EmptyState = Some (Inr (PInt 7, Integer, EmptyState))
   \<and> evaluate (Suc 0) (IntLiteral 2) EmptyState = Some (Inr (PInt 2, Integer, EmptyState))
   \<and> evaluate 2 (Divide (IntLiteral 7) (IntLiteral 2)) EmptyState
       = Some (Inr (PInt 3, Integer, EmptyState))
   \<and> evaluate 2 (Divide (IntLiteral (- 7)) (IntLiteral 2)) EmptyState
       = Some (Inr (PInt (- 4), Integer, EmptyState))
   \<and> evaluate 2 (Divide (IntLiteral 7) (IntLiteral (- 2))) EmptyState
       = Some (Inr (PInt (- 4), Integer, EmptyState))
   \<and> \<not> float_eq (Finite 2) (Finite 0)
   \<and> \<bar>7 / 2\<bar> = real_of_int 7 * pow2 (- 1)
   \<and> float_div (Finite 7) (Finite 2) = Finite (7 / 2)
   \<and> evaluate 2 (Divide (FloatingPointLiteral (Finite 7)) (FloatingPointLiteral (Finite 2)))
        EmptyState = Some (Inr (PFloat (Finite 3.5), FloatingPoint, EmptyState))
   \<and> evaluate 2 (Divide (FloatingPointLiteral (Finite 1)) (FloatingPointLiteral (Finite 3)))
        EmptyState
       = Some (Inr (PFloat (Finite (6004799503160661 / 18014398509481984)), FloatingPoint,
           EmptyState))"
  using divide_floor_and_true [of "Suc 0" "IntLiteral 7" EmptyState "PInt 7" Integer EmptyState
      "Suc 0" "IntLiteral 2" "PInt 2" Integer EmptyState 2]
    divide_floor_and_true [of "Suc 0" "IntLiteral (- 7)" EmptyState "PInt (- 7)" Integer EmptyState
      "Suc 0" "IntLiteral 2" "PInt 2" Integer EmptyState 2]
    divide_floor_and_true [of "Suc 0" "IntLiteral 7" EmptyState "PInt 7" Integer EmptyState
      "Suc 0" "IntLiteral (- 2)" "PInt (- 2)" Integer EmptyState 2]
    divide_floor_and_true [of "Suc 0" "FloatingPointLiteral (Finite 7)" EmptyState
      "PFloat (Finite 7)" FloatingPoint EmptyState
      "Suc 0" "FloatingPointLiteral (Finite 2)" "PFloat (Finite 2)" FloatingPoint EmptyState 2]
    divide_floor_and_true [of "Suc 0" "FloatingPointLiteral (Finite 1)" EmptyState
      "PFloat (Finite 1)" FloatingPoint EmptyState
      "Suc 0" "FloatingPointLiteral (Finite 3)" "PFloat (Finite 3)" FloatingPoint EmptyState 2]
  by (simp add: float_div_def round_double_eval)

text \<open>
  C10. A \<^verbatim>\<open>Divide\<close> whose right operand evaluates to the \<^verbatim>\<open>Boolean\<close> value false fails
  with a Math error, not a Type error: \<^verbatim>\<open>False == 0\<close> holds in Python, and the test for
  zero comes before any check of the types.
\<close>

theorem divide_by_false:
  assumes "evaluate n1 left s = Some (Inr (lv, lt, s1))"
    and "evaluate n2 right s1 = Some (Inr (PBool False, Boolean, s2))"
    and "n1 < m" and "n2 < m"
  shows "py_eq (PBool False) (PInt 0)
    \<and> evaluate m (Divide left right) s = Some (Inl InterpMathError)"
  using evaluate_binary_ok(4) [OF assms]
  by (simp add: divide_case_def)

theorem divide_by_false_witness:
  "evaluate (Suc 0) (IntLiteral 1) EmptyState = Some (Inr (PInt 1, Integer, EmptyState))
   \<and> evaluate (Suc 0) (BooleanLiteral False) EmptyState
       = Some (Inr (PBool False, Boolean, EmptyState))
   \<and> evaluate 2 (Divide (IntLiteral 1) (BooleanLiteral False)) EmptyState
       = Some (Inl InterpMathError)"
  using divide_by_false [of "Suc 0" "IntLiteral 1" EmptyState "PInt 1" Integer EmptyState
      "Suc 0" "BooleanLiteral False" EmptyState 2]
  by simp

section \<open>Comparisons\<close>

text \<open>
  C6. When both operands evaluate to the type \<^verbatim>\<open>Unit\<close>, \<^verbatim>\<open>Eq\<close>, \<^verbatim>\<open>Lte\<close> and \<^verbatim>\<open>Gte\<close>
  return true, \<^verbatim>\<open>Lt\<close>, \<^verbatim>\<open>Gt\<close> and \<^verbatim>\<open>Ne\<close> return false, and the type of the result is
  \<^verbatim>\<open>Boolean\<close> in all six cases.
\<close>

theorem unit_comparisons:
  assumes "evaluate n1 left s = Some (Inr (lv, Unit, s1))"
    and "evaluate n2 right s1 = Some (Inr (rv, Unit, s2))"
    and "n1 < m" and "n2 < m"
  shows "evaluate m (Eq left right) s = Some (Inr (PBool True, Boolean, s2))
    \<and> evaluate m (Lte left right) s = Some (Inr (PBool True, Boolean, s2))
    \<and> evaluate m (Gte left right) s = Some (Inr (PBool True, Boolean, s2))
    \<and> evaluate m (Lt left right) s = Some (Inr (PBool False, Boolean, s2))
    \<and> evaluate m (Gt left right) s = Some (Inr (PBool False, Boolean, s2))
    \<and> evaluate m (Ne left right) s = Some (Inr (PBool False, Boolean, s2))"
  using evaluate_binary_ok(7-12) [OF assms]
  by (simp add: lt_case_def lte_case_def gt_case_def gte_case_def eq_case_def ne_case_def)

theorem unit_comparisons_witness:
  "evaluate (Suc 0) Ren EmptyState = Some (Inr (PNone, Unit, EmptyState))
   \<and> evaluate 2 (Eq Ren Ren) EmptyState = Some (Inr (PBool True, Boolean, EmptyState))
   \<and> evaluate 2 (Lte Ren Ren) EmptyState = Some (Inr (PBool True, Boolean, EmptyState))
   \<and> evaluate 2 (Gte Ren Ren) EmptyState = Some (Inr (PBool True, Boolean, EmptyState))
   \<and> evaluate 2 (Lt Ren Ren) EmptyState = Some (Inr (PBool False, Boolean, EmptyState))
   \<and> evaluate 2 (Gt Ren Ren) EmptyState = Some (Inr (PBool False, Boolean, EmptyState))
   \<and> evaluate 2 (Ne Ren Ren) EmptyState = Some (Inr (PBool False, Boolean, EmptyState))"
  using unit_comparisons [of "Suc 0" Ren EmptyState PNone EmptyState "Suc 0" Ren PNone EmptyState 2]
  by simp

section \<open>Control flow\<close>

text \<open>
  C3. An \<^verbatim>\<open>If\<close> whose condition evaluates to a \<^verbatim>\<open>Boolean\<close> evaluates the true branch
  against the state after the condition and then the false branch against the state after
  the true branch, whatever the condition's value. It returns the value and type of the
  true branch when the condition is true and of the false branch otherwise, with the state
  after both branches; an error of the false branch is raised even when the condition is
  true.
\<close>

theorem if_evaluates_both_branches:
  assumes c: "evaluate n1 condition s = Some (Inr (PBool b, Boolean, s1))"
    and t: "evaluate n2 true s1 = Some (Inr (tv, tt, s2))"
    and n1: "n1 < m" and n2: "n2 < m" and n3: "n3 < m"
  shows "(evaluate n3 false s2 = Some (Inr (fv, ft, s3)) \<longrightarrow>
           evaluate m (IfExpr condition true false) s =
             Some (Inr (if b then tv else fv, if b then tt else ft, s3)))
    \<and> (evaluate n3 false s2 = Some (Inl err) \<longrightarrow>
           evaluate m (IfExpr condition true false) s = Some (Inl err))"
proof -
  from n1 obtain k where m: "m = Suc k" by (cases m) auto
  from c n1 m have c': "evaluate k condition s = Some (Inr (PBool b, Boolean, s1))"
    by (auto intro: operand_at_fuel)
  from t n2 m have t': "evaluate k true s1 = Some (Inr (tv, tt, s2))"
    by (auto intro: operand_at_fuel)
  have "evaluate k false s2 = Some r" if "evaluate n3 false s2 = Some r" for r
    using that n3 m by (auto intro: operand_at_fuel)
  then show ?thesis
    by (simp add: m c' t')
qed

theorem if_evaluates_both_branches_witness:
  "evaluate (Suc 0) (BooleanLiteral True) EmptyState = Some (Inr (PBool True, Boolean, EmptyState))
   \<and> evaluate 2 (Assign ''a'' (IntLiteral 1)) EmptyState
       = Some (Inr (PInt 1, Integer, State ''a'' (PInt 1) Integer EmptyState))
   \<and> evaluate 2 (Assign ''b'' (StringLiteral ''no'')) (State ''a'' (PInt 1) Integer EmptyState)
       = Some (Inr (PStr ''no'', String,
            State ''b'' (PStr ''no'') String (State ''a'' (PInt 1) Integer EmptyState)))
   \<and> evaluate 3 (IfExpr (BooleanLiteral True) (Assign ''a'' (IntLiteral 1))
                   (Assign ''b'' (StringLiteral ''no''))) EmptyState
       = Some (Inr (PInt 1, Integer,
            State ''b'' (PStr ''no'') String (State ''a'' (PInt 1) Integer EmptyState)))"
  using if_evaluates_both_branches [of "Suc 0" "BooleanLiteral True" EmptyState True EmptyState
      2 "Assign ''a'' (IntLiteral 1)" "PInt 1" Integer "State ''a'' (PInt 1) Integer EmptyState"
      3 2 "Assign ''b'' (StringLiteral ''no'')" "PStr ''no''" String
      "State ''b'' (PStr ''no'') String (State ''a'' (PInt 1) Integer EmptyState)" InterpTypeError]
  by (simp add: eval_nat_numeral assign_case_def)

lemma while_initial_condition_checked:
  assumes c: "evaluate n condition s = Some (Inr (cv, ct, s1))"
    and ct: "ct \<noteq> Boolean" and n: "n < m"
  shows "evaluate m (While condition body) s = Some (Inl InterpTypeError)"
proof -
  from n obtain k where m: "m = Suc k" by (cases m) auto
  from c n m have c': "evaluate k condition s = Some (Inr (cv, ct, s1))"
    by (auto intro: operand_at_fuel)
  from ct show ?thesis
    by (cases ct) (simp_all add: m c')
qed

text \<open>
  C2. The type of a \<^verbatim>\<open>While\<close> condition is checked once, before the loop; the
  re-evaluations inside the loop assign \<^verbatim>\<open>condition_type\<close> and never look at it. In
  \<open>while_retype\<close> the condition is \<^verbatim>\<open>Boolean\<close> true at first; after one turn of the body
  it evaluates to the \<^verbatim>\<open>Integer\<close> 0, which the loop takes as falsy: the program returns
  false of type \<^verbatim>\<open>Boolean\<close> and raises no Type error.
\<close>

theorem while_recheck_missing:
  "evaluate 2 (Assign ''c'' (BooleanLiteral True)) EmptyState
     = Some (Inr (PBool True, Boolean, State ''c'' (PBool True) Boolean EmptyState))
   \<and> evaluate 2 while_condition (State ''c'' (PBool True) Boolean EmptyState)
     = Some (Inr (PBool True, Boolean, State ''c'' (PBool True) Boolean EmptyState))
   \<and> evaluate 2 while_condition
        (State ''c'' (PBool False) Boolean (State ''c'' (PBool True) Boolean EmptyState))
     = Some (Inr (PInt 0, Integer,
         State ''c'' (PBool False) Boolean (State ''c'' (PBool True) Boolean EmptyState)))
   \<and> evaluate 8 while_retype EmptyState
     = Some (Inr (PBool False, Boolean,
         State ''c'' (PBool False) Boolean (State ''c'' (PBool True) Boolean EmptyState)))"
  unfolding while_retype_def while_condition_def
  by (simp add: eval_nat_numeral assign_case_def)

section \<open>Variables and assignment\<close>

lemma get_value_map_of: "get_value s name = map_of (bindings s) name"
  by (induction s) auto

text \<open>
  C7. A \<^verbatim>\<open>Variable\<close> whose name has no binding in the state fails with a Syntax error;
  no default value is returned. A \<^verbatim>\<open>Variable\<close> whose name is bound returns the value and
  type of its most recent binding, whatever they are (the \<^verbatim>\<open>Unit\<close> value, false and 0
  included), and the state unchanged.
\<close>

theorem variable_lookup:
  assumes "0 < m"
  shows "(name \<notin> fst ` set (bindings s) \<longrightarrow>
           evaluate m (Variable name) s = Some (Inl InterpSyntaxError))
    \<and> (\<forall>v t. map_of (bindings s) name = Some (v, t) \<longrightarrow>
           evaluate m (Variable name) s = Some (Inr (v, t, s)))
    \<and> (name \<in> fst ` set (bindings s) \<longrightarrow>
           (\<exists>v t. (name, v, t) \<in> set (bindings s)
              \<and> evaluate m (Variable name) s = Some (Inr (v, t, s))))"
proof -
  from assms obtain k where m: "m = Suc k" by (cases m) auto
  have none: "evaluate m (Variable name) s = Some (Inl InterpSyntaxError)"
    if "name \<notin> fst ` set (bindings s)"
  proof -
    from that have "map_of (bindings s) name = None"
      by (simp add: map_of_eq_None_iff)
    then show ?thesis by (simp add: m get_value_map_of)
  qed
  have some: "evaluate m (Variable name) s = Some (Inr (v, t, s))"
    if "map_of (bindings s) name = Some (v, t)" for v t
    using that by (simp add: m get_value_map_of)
  have bound: "\<exists>v t. (name, v, t) \<in> set (bindings s)
      \<and> evaluate m (Variable name) s = Some (Inr (v, t, s))"
    if "name \<in> fst ` set (bindings s)"
  proof -
    from that obtain vt where vt: "map_of (bindings s) name = Some vt"
      by (cases "map_of (bindings s) name") (auto simp add: map_of_eq_None_iff)
    obtain v t where "vt = (v, t)" by (cases vt)
    with vt have "map_of (bindings s) name = Some (v, t)" by simp
    then show ?thesis using some map_of_SomeD by fastforce
  qed
  from none some bound show ?thesis by blast
qed

theorem variable_lookup_witness:
  "(0::nat) < 1
   \<and> ''y'' \<notin> fst ` set (bindings (State ''x'' PNone Unit (State ''z'' (PBool False) Boolean EmptyState)))
   \<and> evaluate 1 (Variable ''y'') (State ''x'' PNone Unit (State ''z'' (PBool False) Boolean EmptyState))
       = Some (Inl InterpSyntaxError)
   \<and> map_of (bindings (State ''x'' PNone Unit (State ''z'' (PBool False) Boolean EmptyState))) ''x''
       = Some (PNone, Unit)
   \<and> evaluate 1 (Variable ''x'') (State ''x'' PNone Unit (State ''z'' (PBool False) Boolean EmptyState))
       = Some (Inr (PNone, Unit, State ''x'' PNone Unit (State ''z'' (PBool False) Boolean EmptyState)))
   \<and> map_of (bindings (State ''x'' PNone Unit (State ''z'' (PBool False) Boolean EmptyState))) ''z''
       = Some (PBool False, Boolean)
   \<and> evaluate 1 (Variable ''z'') (State ''x'' PNone Unit (State ''z'' (PBool False) Boolean EmptyState))
       = Some (Inr (PBool False, Boolean,
            State ''x'' PNone Unit (State ''z'' (PBool False) Boolean EmptyState)))"
  using variable_lookup [of 1 "''y''" "State ''x'' PNone Unit (State ''z'' (PBool False) Boolean EmptyState)"]
    variable_lookup [of 1 "''x''" "State ''x'' PNone Unit (State ''z'' (PBool False) Boolean EmptyState)"]
    variable_lookup [of 1 "''z''" "State ''x'' PNone Unit (State ''z'' (PBool False) Boolean EmptyState)"]
  by simp

text \<open>
  C5. An \<^verbatim>\<open>Assign\<close> evaluates its value expression against the incoming state and looks
  the name up in the state that this evaluation returned. An earlier binding of another
  type is a Type error. Otherwise (no earlier binding, or one of the same type) the
  returned state is extended with the new binding and the value, its type and the
  extended state are returned; a first assignment to an unbound name never fails on type
  grounds.
\<close>

theorem assign_checks_against_new_state:
  assumes v: "evaluate n val s = Some (Inr (value_result, value_type, s1))" and n: "n < m"
  shows "(get_value s1 name = None \<longrightarrow>
           evaluate m (Assign name val) s =
             Some (Inr (value_result, value_type, set_value s1 name value_result value_type)))
    \<and> (\<forall>old. get_value s1 name = Some (old, value_type) \<longrightarrow>
           evaluate m (Assign name val) s =
             Some (Inr (value_result, value_type, set_value s1 name value_result value_type)))
    \<and> (\<forall>old t. get_value s1 name = Some (old, t) \<and> t \<noteq> value_type \<longrightarrow>
           evaluate m (Assign name val) s = Some (Inl InterpTypeError))"
proof -
  from n obtain k where m: "m = Suc k" by (cases m) auto
  from v n m have v': "evaluate k val s = Some (Inr (value_result, value_type, s1))"
    by (auto intro: operand_at_fuel)
  show ?thesis
    by (auto simp add: m v' assign_case_def)
qed

theorem assign_checks_against_new_state_witness:
  "evaluate 4 (Sequence [Assign ''x'' (IntLiteral 1), StringLiteral ''a'']) EmptyState
     = Some (Inr (PStr ''a'', String, State ''x'' (PInt 1) Integer EmptyState))
   \<and> get_value EmptyState ''x'' = None
   \<and> get_value (State ''x'' (PInt 1) Integer EmptyState) ''x'' = Some (PInt 1, Integer)
   \<and> Integer \<noteq> String
   \<and> evaluate 5 (Assign ''x'' (Sequence [Assign ''x'' (IntLiteral 1), StringLiteral ''a'']))
        EmptyState = Some (Inl InterpTypeError)
   \<and> evaluate (Suc 0) (StringLiteral ''a'') EmptyState
        = Some (Inr (PStr ''a'', String, EmptyState))
   \<and> evaluate 2 (Assign ''x'' (StringLiteral ''a'')) EmptyState
        = Some (Inr (PStr ''a'', String, State ''x'' (PStr ''a'') String EmptyState))"
  using assign_checks_against_new_state [of 4
      "Sequence [Assign ''x'' (IntLiteral 1), StringLiteral ''a'']" EmptyState
      "PStr ''a''" String "State ''x'' (PInt 1) Integer EmptyState" 5 "''x''"]
    assign_checks_against_new_state [of "Suc 0" "StringLiteral ''a''" EmptyState
      "PStr ''a''" String EmptyState 2 "''x''"]
  by (simp add: eval_nat_numeral assign_case_def)

section \<open>The chain of bindings\<close>

text \<open>
  C9. \<^verbatim>\<open>set_value\<close> puts one binding in front of the state it is given and leaves that
  state as the tail. After any number of assignments to one name, every one of the
  bindings is in the chain, the latest first, in front of the bindings of the starting
  state, and \<^verbatim>\<open>get_value\<close> of that name returns the value and type assigned last.
\<close>

theorem set_value_keeps_history:
  "bindings (set_value s name v t) = (name, v, t) # bindings s
   \<and> bindings (foldl (\<lambda>st (v, t). set_value st name v t) s vts)
       = rev (map (\<lambda>(v, t). (name, v, t)) vts) @ bindings s
   \<and> (vts \<noteq> [] \<longrightarrow>
        get_value (foldl (\<lambda>st (v, t). set_value st name v t) s vts) name = Some (last vts))"
proof (intro conjI)
  show "bindings (set_value s name v t) = (name, v, t) # bindings s" by simp
  show "bindings (foldl (\<lambda>st (v, t). set_value st name v t) s vts)
       = rev (map (\<lambda>(v, t). (name, v, t)) vts) @ bindings s"
    by (induction vts arbitrary: s) (auto split: prod.splits)
  show "vts \<noteq> [] \<longrightarrow>
        get_value (foldl (\<lambda>st (v, t). set_value st name v t) s vts) name = Some (last vts)"
    by (induction vts rule: rev_induct) (auto split: prod.splits)
qed

theorem set_value_keeps_history_witness:
  "bindings (foldl (\<lambda>st (v, t). set_value st ''x'' v t) (State ''y'' PNone Unit EmptyState)
       [(PInt 1, Integer), (PStr ''a'', String), (PInt 3, Integer)])
     = [(''x'', PInt 3, Integer), (''x'', PStr ''a'', String), (''x'', PInt 1, Integer),
        (''y'', PNone, Unit)]
   \<and> get_value (foldl (\<lambda>st (v, t). set_value st ''x'' v t) (State ''y'' PNone Unit EmptyState)
       [(PInt 1, Integer), (PStr ''a'', String), (PInt 3, Integer)]) ''x''
     = Some (PInt 3, Integer)"
  using set_value_keeps_history [of "State ''y'' PNone Unit EmptyState" "''x''" PNone Unit
      "[(PInt 1, Integer), (PStr ''a'', String), (PInt 3, Integer)]"]
  by simp

end
